theory Spec2Isabelle
  imports Main
begin

section \<open>Data model (types.ts)\<close>

text \<open>
  The wizard's four screens, the two media records and the two option enums of
  \<^verbatim>\<open>types.ts\<close>. \<^verbatim>\<open>ImageSize\<close> and \<^verbatim>\<open>AspectRatio\<close> are string-literal unions in
  the source (\<^verbatim>\<open>'1K' | '2K' | '4K'\<close> and \<^verbatim>\<open>'1:1' | '16:9' | '9:16'\<close>).
\<close>

datatype AppStep = Setup | Design | Animate | View

datatype ImageSize = Size_1K | Size_2K | Size_4K

datatype AspectRatio = Ratio_1_1 | Ratio_16_9 | Ratio_9_16

text \<open>
  \<^verbatim>\<open>generateLogo\<close> returns \<^verbatim>\<open>{url, base64, mimeType}\<close>; \<^verbatim>\<open>LogoData\<close> is that object
  spread and extended by \<^verbatim>\<open>prompt\<close>, so it is a record extension here.
  The field \<^verbatim>\<open>prompt\<close> of \<^verbatim>\<open>AnimationData\<close> is called \<open>animationPrompt\<close>, the name
  \<open>prompt\<close> being taken by \<open>LogoData\<close>.
\<close>

record GeneratedLogo =
  url :: string
  base64 :: string
  mimeType :: string

record LogoData = GeneratedLogo +
  prompt :: string

record AnimationData =
  videoUrl :: string
  animationPrompt :: string

section \<open>JavaScript values the code depends on\<close>

text \<open>
  A thrown value is an object with an optional \<^verbatim>\<open>message\<close> (the handlers read
  \<^verbatim>\<open>err.message\<close> only). An awaited promise either settles, fulfilled or rejected,
  or never settles: \<open>None\<close> is the promise that stays pending for ever.
\<close>

datatype js_error = JsError (message: "string option")

datatype 'a settled = Fulfilled 'a | Rejected js_error

type_synonym 'a promise = "'a settled option"

text \<open>\<^verbatim>\<open>String.prototype.includes\<close>: the pattern occurs as a contiguous substring.\<close>

fun startsWith :: "string \<Rightarrow> string \<Rightarrow> bool" where
  "startsWith s [] = True"
| "startsWith [] (p # ps) = False"
| "startsWith (c # cs) (p # ps) = (c = p \<and> startsWith cs ps)"

fun str_includes :: "string \<Rightarrow> string \<Rightarrow> bool" where
  "str_includes [] p = startsWith [] p"
| "str_includes (c # cs) p = (startsWith (c # cs) p \<or> str_includes cs p)"

text \<open>A template literal prints an undefined value as the text \<^verbatim>\<open>undefined\<close>.\<close>

definition interpolate :: "string option \<Rightarrow> string" where
  "interpolate v = (case v of None \<Rightarrow> ''undefined'' | Some s \<Rightarrow> s)"

text \<open>\<^verbatim>\<open>a || b\<close> on an optional string: undefined and the empty string are falsy.\<close>

definition or_else :: "string option \<Rightarrow> string \<Rightarrow> string" where
  "or_else v d = (case v of None \<Rightarrow> d | Some s \<Rightarrow> (if s = [] then d else s))"

section \<open>Media request client (services/geminiService)\<close>

subsection \<open>The provider's interface\<close>

text \<open>
  The shapes of the vendor client that the code reads. Every level of
  \<^verbatim>\<open>response.candidates?.[0]?.content?.parts\<close> may be undefined, as may
  \<^verbatim>\<open>inlineData\<close> of a part and its \<^verbatim>\<open>mimeType\<close> (the code supplies a default). The
  \<^verbatim>\<open>data\<close> of an inline payload is a string, as the return type of \<^verbatim>\<open>generateLogo\<close>
  declares its \<^verbatim>\<open>base64\<close>.
\<close>

datatype InlineData = InlineData string "string option"

datatype Part = Part (partText: "string option") (inlineData: "InlineData option")

datatype Content = Content (parts: "Part list option")

datatype Candidate = Candidate (content: "Content option")

datatype GenerateContentResponse = GenerateContentResponse (candidates: "Candidate list option")

text \<open>The request of \<^verbatim>\<open>generateContent\<close>: model, prompt text, aspect ratio, image size.\<close>

datatype GenerateContentParameters =
  GenerateContentParameters string string AspectRatio ImageSize

text \<open>
  A video operation: its \<^verbatim>\<open>done\<close> flag and
  \<^verbatim>\<open>response?.generatedVideos?.[0]?.video?.uri\<close>, each level optional.
\<close>

datatype Video = Video (uri: "string option")

datatype GeneratedVideo = GeneratedVideo (video: "Video option")

datatype GenerateVideosResponse =
  GenerateVideosResponse (generatedVideos: "GeneratedVideo list option")

datatype Operation =
  Operation (op_done: "bool option") (response: "GenerateVideosResponse option")

text \<open>
  The request of \<^verbatim>\<open>generateVideos\<close>: model, prompt, image bytes, image mime type,
  number of videos, resolution, aspect ratio.
\<close>

datatype GenerateVideosParameters =
  GenerateVideosParameters string string string string nat string AspectRatio

text \<open>
  What \<^verbatim>\<open>fetch\<close> resolves to: the HTTP status with its \<^verbatim>\<open>ok\<close> flag, and the
  promise that \<^verbatim>\<open>blob()\<close> returns. A blob is its bytes.
\<close>

type_synonym Blob = string

datatype Response = Response (ok: bool) (status: nat) (blob: "Blob promise")

text \<open>
  Everything outside the repository that the client calls. \<open>getVideosOperation n\<close> is
  the provider's reply to the \<open>n\<close>-th status fetch of the operation (counted from 0).
\<close>

record Provider =
  API_KEY :: "string option"
  generateContent :: "GenerateContentParameters \<Rightarrow> GenerateContentResponse promise"
  generateVideos :: "GenerateVideosParameters \<Rightarrow> Operation promise"
  getVideosOperation :: "nat \<Rightarrow> Operation promise"
  fetch :: "string \<Rightarrow> Response promise"
  createObjectURL :: "Blob \<Rightarrow> string"

subsection \<open>generateLogo\<close>

definition logoRequest :: "string \<Rightarrow> ImageSize \<Rightarrow> GenerateContentParameters" where
  "logoRequest prompt' size' =
     GenerateContentParameters ''gemini-3-pro-image-preview''
       (''A clean, professional, high-resolution logo design for: '' @ prompt' @
        ''. Minimalist, vector style, suitable for educational non-profits. White background.'')
       Ratio_1_1 size'"

text \<open>\<^verbatim>\<open>response.candidates?.[0]?.content?.parts || []\<close>\<close>

definition firstCandidateParts :: "GenerateContentResponse \<Rightarrow> Part list" where
  "firstCandidateParts resp =
     (case candidates resp of
        None \<Rightarrow> []
      | Some [] \<Rightarrow> []
      | Some (c # _) \<Rightarrow>
          (case content c of
             None \<Rightarrow> []
           | Some ct \<Rightarrow> (case parts ct of None \<Rightarrow> [] | Some ps \<Rightarrow> ps)))"

text \<open>
  The \<^verbatim>\<open>for\<close> loop over the parts: it returns at the first part that has
  \<^verbatim>\<open>inlineData\<close>, and falls through when there is none.
\<close>

fun firstInlineImage :: "Part list \<Rightarrow> GeneratedLogo option" where
  "firstInlineImage [] = None"
| "firstInlineImage (part # rest) =
     (case inlineData part of
        Some (InlineData b64 mt) \<Rightarrow>
          (let mimeType' = or_else mt ''image/png''
           in Some \<lparr>url = ''data:'' @ mimeType' @ '';base64,'' @ b64,
                    base64 = b64, mimeType = mimeType'\<rparr>)
      | None \<Rightarrow> firstInlineImage rest)"

definition NoImageReturned :: js_error where
  "NoImageReturned = JsError (Some ''No image data returned from model.'')"

definition generateLogo :: "'x Provider_scheme \<Rightarrow> string \<Rightarrow> ImageSize \<Rightarrow> GeneratedLogo promise" where
  "generateLogo ai prompt' size' =
     (case generateContent ai (logoRequest prompt' size') of
        None \<Rightarrow> None
      | Some (Rejected e) \<Rightarrow> Some (Rejected e)
      | Some (Fulfilled resp) \<Rightarrow>
          (case firstInlineImage (firstCandidateParts resp) of
             Some result \<Rightarrow> Some (Fulfilled result)
           | None \<Rightarrow> Some (Rejected NoImageReturned)))"

subsection \<open>animateLogo\<close>

definition videoRequest :: "string \<Rightarrow> string \<Rightarrow> string \<Rightarrow> AspectRatio \<Rightarrow> GenerateVideosParameters" where
  "videoRequest imageBytes imageMimeType animPrompt ratio =
     GenerateVideosParameters ''veo-3.1-fast-generate-preview'' animPrompt
       imageBytes imageMimeType 1 ''720p'' ratio"

text \<open>\<^verbatim>\<open>!operation.done\<close>: an undefined flag counts as not done.\<close>

definition not_done :: "Operation \<Rightarrow> bool" where
  "not_done operation = (op_done operation \<noteq> Some True)"

text \<open>
  The polling loop \<^verbatim>\<open>while (!operation.done) { sleep 10 s; operation = await
  getVideosOperation(...) }\<close>. The list is the log of the sleeps made so far, in
  milliseconds; its length is the number of status fetches already made. The result is
  \<open>None\<close> when the loop never exits (it goes round for ever, or a status fetch never
  settles), a rejection when a status fetch throws out of the loop, and the operation
  that ended the loop otherwise.
\<close>

partial_function (option) poll ::
  "(nat \<Rightarrow> Operation promise) \<Rightarrow> nat list \<Rightarrow> Operation \<Rightarrow> (nat list \<times> Operation settled) option"
where
  "poll getOperation slept operation =
     (if not_done operation then
        (case getOperation (length slept) of
           None \<Rightarrow> None
         | Some (Rejected e) \<Rightarrow> Some (slept @ [10000], Rejected e)
         | Some (Fulfilled operation') \<Rightarrow> poll getOperation (slept @ [10000]) operation')
      else Some (slept, Fulfilled operation))"

text \<open>\<^verbatim>\<open>operation.response?.generatedVideos?.[0]?.video?.uri\<close>\<close>

definition downloadLink :: "Operation \<Rightarrow> string option" where
  "downloadLink operation =
     (case response operation of
        None \<Rightarrow> None
      | Some r \<Rightarrow>
          (case generatedVideos r of
             None \<Rightarrow> None
           | Some [] \<Rightarrow> None
           | Some (v # _) \<Rightarrow> (case video v of None \<Rightarrow> None | Some vd \<Rightarrow> uri vd)))"

definition NoVideoReturned :: js_error where
  "NoVideoReturned = JsError (Some ''Failed to get video download link.'')"

text \<open>
  The part of \<^verbatim>\<open>animateLogo\<close> after the loop: the link is checked for truthiness
  (undefined and the empty string throw), the content is fetched with the key appended,
  read as a blob and turned into an object URL. Nothing reads the response's status.
\<close>

definition download :: "'x Provider_scheme \<Rightarrow> Operation \<Rightarrow> string promise" where
  "download ai operation =
     (case downloadLink operation of
        None \<Rightarrow> Some (Rejected NoVideoReturned)
      | Some link \<Rightarrow>
          if link = [] then Some (Rejected NoVideoReturned)
          else
            (case fetch ai (link @ ''&key='' @ interpolate (API_KEY ai)) of
               None \<Rightarrow> None
             | Some (Rejected e) \<Rightarrow> Some (Rejected e)
             | Some (Fulfilled resp) \<Rightarrow>
                 (case blob resp of
                    None \<Rightarrow> None
                  | Some (Rejected e) \<Rightarrow> Some (Rejected e)
                  | Some (Fulfilled b) \<Rightarrow> Some (Fulfilled (createObjectURL ai b)))))"

definition animateLogo ::
  "'x Provider_scheme \<Rightarrow> string \<Rightarrow> string \<Rightarrow> string \<Rightarrow> AspectRatio \<Rightarrow> string promise"
where
  "animateLogo ai imageBytes imageMimeType animPrompt ratio =
     (case generateVideos ai (videoRequest imageBytes imageMimeType animPrompt ratio) of
        None \<Rightarrow> None
      | Some (Rejected e) \<Rightarrow> Some (Rejected e)
      | Some (Fulfilled operation) \<Rightarrow>
          (case poll (getVideosOperation ai) [] operation of
             None \<Rightarrow> None
           | Some (slept, Rejected e) \<Rightarrow> Some (Rejected e)
           | Some (slept, Fulfilled operation') \<Rightarrow> download ai operation'))"

section \<open>Workflow controller (App.tsx)\<close>

subsection \<open>State\<close>

text \<open>The eight \<^verbatim>\<open>useState\<close> cells of the component and their initial values.\<close>

record AppState =
  step :: AppStep
  logo :: "LogoData option"
  animation :: "AnimationData option"
  isGenerating :: bool
  error :: "string option"
  imageSize :: ImageSize
  aspectRatio :: AspectRatio
  progressMessage :: string

definition initialState :: AppState where
  "initialState =
     \<lparr>step = Setup, logo = None, animation = None, isGenerating = False, error = None,
      imageSize = Size_1K, aspectRatio = Ratio_16_9, progressMessage = []\<rparr>"

definition loadingMessages :: "string list" where
  "loadingMessages =
     [''Synthesizing visual concepts...'',
      ''Perfecting geometric proportions...'',
      ''Applying professional color palettes...'',
      ''Polishing vector edges...'',
      ''Optimizing for education and impact...'',
      ''Adding that 'More Wisdom' touch...'']"

definition animationMessages :: "string list" where
  "animationMessages =
     [''Infusing motion into the design...'',
      ''Calculating fluid dynamics...'',
      ''Rendering cinematic lighting...'',
      ''Bringing your brand to life...'',
      ''Finalizing visual storytelling...'',
      ''Just a moment longer, greatness takes time...'']"

subsection \<open>What a handler does\<close>

text \<open>
  A handler is a sequence of observable actions: writes to the state cells, the timer
  calls, and the calls to the collaborators (the host's key picker and the two service
  functions, with the arguments passed).
\<close>

datatype action =
    SetStep AppStep
  | SetLogo LogoData
  | SetAnimation AnimationData
  | SetIsGenerating bool
  | SetError "string option"
  | SetImageSize ImageSize
  | SetAspectRatio AspectRatio
  | SetProgressMessage string
  | SetInterval nat
  | ClearInterval
  | Call_hasSelectedApiKey
  | Call_openSelectKey
  | Call_generateLogo string ImageSize
  | Call_animateLogo string string string AspectRatio

fun perform :: "action \<Rightarrow> AppState \<Rightarrow> AppState" where
  "perform (SetStep x) s = s\<lparr>step := x\<rparr>"
| "perform (SetLogo x) s = s\<lparr>logo := Some x\<rparr>"
| "perform (SetAnimation x) s = s\<lparr>animation := Some x\<rparr>"
| "perform (SetIsGenerating x) s = s\<lparr>isGenerating := x\<rparr>"
| "perform (SetError x) s = s\<lparr>error := x\<rparr>"
| "perform (SetImageSize x) s = s\<lparr>imageSize := x\<rparr>"
| "perform (SetAspectRatio x) s = s\<lparr>aspectRatio := x\<rparr>"
| "perform (SetProgressMessage x) s = s\<lparr>progressMessage := x\<rparr>"
| "perform (SetInterval ms) s = s"
| "perform ClearInterval s = s"
| "perform Call_hasSelectedApiKey s = s"
| "perform Call_openSelectKey s = s"
| "perform (Call_generateLogo d sz) s = s"
| "perform (Call_animateLogo b m p r) s = s"

definition performAll :: "action list \<Rightarrow> AppState \<Rightarrow> AppState" where
  "performAll acts s = fold perform acts s"

subsection \<open>The asynchronous handlers\<close>

text \<open>
  An \<^verbatim>\<open>async\<close> handler runs up to its first \<^verbatim>\<open>await\<close> and is resumed when the
  awaited promise settles. A task is a suspended handler: the \<^verbatim>\<open>await\<close> it stands at
  and the variables of its closure that it still holds (\<^verbatim>\<open>description\<close> or
  \<^verbatim>\<open>animPrompt\<close>, the \<^verbatim>\<open>logo\<close> that \<^verbatim>\<open>handleAnimate\<close> was called with, and
  the ticker's \<^verbatim>\<open>msgIndex\<close>). The interval of a generation handler is running exactly
  while its task exists.
\<close>

datatype task =
    CheckApiKey_hasSelectedApiKey
  | CheckApiKey_openSelectKey
  | GenerateLogo_generateLogo string nat
  | GenerateLogo_openSelectKey nat
  | Animate_animateLogo LogoData string nat
  | Animate_openSelectKey nat

text \<open>What resumes a task: a firing of its interval, or the settlement of a call.\<close>

datatype event =
    Tick
  | Settled_hasSelectedApiKey "bool settled"
  | Settled_openSelectKey "unit settled"
  | Settled_generateLogo "GeneratedLogo settled"
  | Settled_animateLogo "string settled"

definition notFound :: string where
  "notFound = ''Requested entity was not found''"

definition reselect :: string where
  "reselect = ''Your API key may not have access or has been reset. Please re-select.''"

text \<open>\<^verbatim>\<open>err.message?.includes("Requested entity was not found")\<close>\<close>

definition entityNotFound :: "js_error \<Rightarrow> bool" where
  "entityNotFound err =
     (case message err of None \<Rightarrow> False | Some m \<Rightarrow> str_includes m notFound)"

text \<open>The \<^verbatim>\<open>finally\<close> block of both generation handlers.\<close>

definition finallyBlock :: "action list" where
  "finallyBlock = [ClearInterval, SetIsGenerating False]"

text \<open>
  The \<^verbatim>\<open>catch\<close> block of both generation handlers, up to its \<^verbatim>\<open>await\<close> or its end;
  \<open>fallback\<close> is the handler's default message and \<open>awaiting\<close> the task that waits for
  the key picker.
\<close>

definition catchBlock :: "js_error \<Rightarrow> string \<Rightarrow> task \<Rightarrow> action list \<times> task option" where
  "catchBlock err fallback awaiting =
     (if entityNotFound err
      then ([SetError (Some reselect), Call_openSelectKey], Some awaiting)
      else (SetError (Some (or_else (message err) fallback)) # finallyBlock, None))"

definition checkApiKey :: "action list \<times> task option" where
  "checkApiKey = ([Call_hasSelectedApiKey], Some CheckApiKey_hasSelectedApiKey)"

definition handleGenerateLogo :: "string \<Rightarrow> AppState \<Rightarrow> action list \<times> task option" where
  "handleGenerateLogo description s =
     ([SetIsGenerating True, SetError None, SetInterval 3000,
       Call_generateLogo description (imageSize s)],
      Some (GenerateLogo_generateLogo description 0))"

definition handleAnimate :: "string \<Rightarrow> AppState \<Rightarrow> action list \<times> task option" where
  "handleAnimate animPrompt s =
     (case logo s of
        None \<Rightarrow> ([], None)
      | Some l \<Rightarrow>
          ([SetIsGenerating True, SetError None, SetInterval 4000,
            Call_animateLogo (base64 l) (mimeType l) animPrompt (aspectRatio s)],
           Some (Animate_animateLogo l animPrompt 0)))"

text \<open>
  The continuation of each task. \<open>None\<close>: the event is not one the task waits for.
  A rejection inside \<^verbatim>\<open>try\<close> goes to \<^verbatim>\<open>catch\<close>; the key picker awaited inside
  \<^verbatim>\<open>catch\<close> leads to \<^verbatim>\<open>finally\<close> whether it resolves or rejects.
\<close>

fun resume :: "task \<Rightarrow> event \<Rightarrow> (action list \<times> task option) option" where
  "resume CheckApiKey_hasSelectedApiKey (Settled_hasSelectedApiKey (Fulfilled hasKey)) =
     Some (if hasKey then ([SetStep Design], None)
           else ([Call_openSelectKey], Some CheckApiKey_openSelectKey))"
| "resume CheckApiKey_hasSelectedApiKey (Settled_hasSelectedApiKey (Rejected e)) =
     Some ([SetError (Some ''Failed to verify API key selection. Please try again.'')], None)"
| "resume CheckApiKey_openSelectKey (Settled_openSelectKey (Fulfilled u)) =
     Some ([SetStep Design], None)"
| "resume CheckApiKey_openSelectKey (Settled_openSelectKey (Rejected e)) =
     Some ([SetError (Some ''Failed to verify API key selection. Please try again.'')], None)"
| "resume (GenerateLogo_generateLogo description msgIndex) Tick =
     Some ([SetProgressMessage (loadingMessages ! (msgIndex mod length loadingMessages))],
           Some (GenerateLogo_generateLogo description (msgIndex + 1)))"
| "resume (GenerateLogo_generateLogo description msgIndex) (Settled_generateLogo (Fulfilled result)) =
     Some ([SetLogo (GeneratedLogo.extend result (LogoData.fields description)),
            SetStep Design] @ finallyBlock, None)"
| "resume (GenerateLogo_generateLogo description msgIndex) (Settled_generateLogo (Rejected err)) =
     Some (catchBlock err ''Something went wrong while generating the logo.''
             (GenerateLogo_openSelectKey msgIndex))"
| "resume (GenerateLogo_openSelectKey msgIndex) Tick =
     Some ([SetProgressMessage (loadingMessages ! (msgIndex mod length loadingMessages))],
           Some (GenerateLogo_openSelectKey (msgIndex + 1)))"
| "resume (GenerateLogo_openSelectKey msgIndex) (Settled_openSelectKey r) =
     Some (finallyBlock, None)"
| "resume (Animate_animateLogo l animPrompt msgIndex) Tick =
     Some ([SetProgressMessage (animationMessages ! (msgIndex mod length animationMessages))],
           Some (Animate_animateLogo l animPrompt (msgIndex + 1)))"
| "resume (Animate_animateLogo l animPrompt msgIndex) (Settled_animateLogo (Fulfilled v)) =
     Some ([SetAnimation \<lparr>videoUrl = v, animationPrompt = animPrompt\<rparr>,
            SetStep View] @ finallyBlock, None)"
| "resume (Animate_animateLogo l animPrompt msgIndex) (Settled_animateLogo (Rejected err)) =
     Some (catchBlock err ''Failed to animate logo.'' (Animate_openSelectKey msgIndex))"
| "resume (Animate_openSelectKey msgIndex) Tick =
     Some ([SetProgressMessage (animationMessages ! (msgIndex mod length animationMessages))],
           Some (Animate_openSelectKey (msgIndex + 1)))"
| "resume (Animate_openSelectKey msgIndex) (Settled_openSelectKey r) =
     Some (finallyBlock, None)"
| "resume _ _ = None"

text \<open>
  One call of a handler followed over a list of events, in order: the actions so far and
  the task left (\<open>None\<close> once the handler has returned). The outer \<open>None\<close>: some event
  was not one the handler was waiting for.
\<close>

fun drive :: "action list \<times> task option \<Rightarrow> event list \<Rightarrow> (action list \<times> task option) option" where
  "drive c [] = Some c"
| "drive (acts, None) (ev # evs) = None"
| "drive (acts, Some t) (ev # evs) =
     (case resume t ev of
        None \<Rightarrow> None
      | Some (acts', t') \<Rightarrow> drive (acts @ acts', t') evs)"

subsection \<open>The component as a transition system\<close>

text \<open>
  The running component: the state cells and the handlers suspended at an \<^verbatim>\<open>await\<close>.
  Its inputs are the user's operations of the controls and the deliveries of an event to
  one of the suspended handlers (by position in the list).
\<close>

record System =
  app :: AppState
  suspended :: "task list"

definition initialSystem :: System where
  "initialSystem = \<lparr>app = initialState, suspended = []\<rparr>"

datatype control =
    GetStarted_button
  | Designer_nav
  | Animator_nav
  | Generate_button string
  | ImageQuality_select ImageSize
  | NextAnimate_button
  | BackToDesign_button
  | Animate_button string
  | Format_select AspectRatio
  | ChangeAnimation_button
  | CreateNew_button

datatype input = User control | Deliver nat event

text \<open>
  Which controls the JSX renders in a state. The two header buttons are always there
  (the Animator button is disabled without a logo, and its handler tests the logo
  again); the others belong to the screen of the current step. The progress overlay
  shown while \<open>isGenerating\<close> covers the page but disables no control, so it is no
  condition here. The two buttons with a text argument read it from the text area; any
  text can be there.
\<close>

fun rendered :: "control \<Rightarrow> AppState \<Rightarrow> bool" where
  "rendered GetStarted_button s = (step s = Setup)"
| "rendered Designer_nav s = True"
| "rendered Animator_nav s = True"
| "rendered (Generate_button d) s = (step s = Design)"
| "rendered (ImageQuality_select sz) s = (step s = Design)"
| "rendered NextAnimate_button s = (step s = Design \<and> logo s \<noteq> None)"
| "rendered BackToDesign_button s = (step s = Animate \<and> logo s \<noteq> None)"
| "rendered (Animate_button p) s = (step s = Animate \<and> logo s \<noteq> None)"
| "rendered (Format_select r) s = (step s = Animate \<and> logo s \<noteq> None)"
| "rendered ChangeAnimation_button s = (step s = View \<and> animation s \<noteq> None)"
| "rendered CreateNew_button s = (step s = View \<and> animation s \<noteq> None)"

text \<open>
  The \<^verbatim>\<open>onClick\<close> (or \<^verbatim>\<open>onChange\<close>) of each control, up to the first \<^verbatim>\<open>await\<close> of
  the handler it calls.
\<close>

fun onClick :: "control \<Rightarrow> AppState \<Rightarrow> action list \<times> task option" where
  "onClick GetStarted_button s = checkApiKey"
| "onClick Designer_nav s = ([SetStep Design], None)"
| "onClick Animator_nav s = (if logo s \<noteq> None then ([SetStep Animate], None) else ([], None))"
| "onClick (Generate_button d) s = handleGenerateLogo d s"
| "onClick (ImageQuality_select sz) s = ([SetImageSize sz], None)"
| "onClick NextAnimate_button s = ([SetStep Animate], None)"
| "onClick BackToDesign_button s = ([SetStep Design], None)"
| "onClick (Animate_button p) s = handleAnimate p s"
| "onClick (Format_select r) s = ([SetAspectRatio r], None)"
| "onClick ChangeAnimation_button s = ([SetStep Animate], None)"
| "onClick CreateNew_button s = ([SetStep Design], None)"

text \<open>
  The list of suspended handlers after one of them was resumed: it is removed when it
  has returned, and replaced by its next suspension otherwise.
\<close>

definition settle :: "task list \<Rightarrow> nat \<Rightarrow> task option \<Rightarrow> task list" where
  "settle ts i t =
     (case t of None \<Rightarrow> take i ts @ drop (Suc i) ts | Some t' \<Rightarrow> ts[i := t'])"

text \<open>
  One input: the actions it causes and the system after them. \<open>None\<close>: the input cannot
  happen (the control is not rendered, or no suspended handler waits for the event).
\<close>

fun dispatch :: "input \<Rightarrow> System \<Rightarrow> (action list \<times> System) option" where
  "dispatch (User c) sys =
     (if rendered c (app sys) then
        (case onClick c (app sys) of
           (acts, t) \<Rightarrow>
             Some (acts, \<lparr>app = performAll acts (app sys),
                          suspended = suspended sys @ (case t of None \<Rightarrow> [] | Some t' \<Rightarrow> [t'])\<rparr>))
      else None)"
| "dispatch (Deliver i ev) sys =
     (if i < length (suspended sys) then
        (case resume (suspended sys ! i) ev of
           None \<Rightarrow> None
         | Some (acts, t) \<Rightarrow>
             Some (acts, \<lparr>app = performAll acts (app sys),
                          suspended = settle (suspended sys) i t\<rparr>))
      else None)"

text \<open>A session: inputs in order from a system, with the log of all actions.\<close>

fun run :: "input list \<Rightarrow> action list \<times> System \<Rightarrow> (action list \<times> System) option" where
  "run [] c = Some c"
| "run (i # ins) (log, sys) =
     (case dispatch i sys of
        None \<Rightarrow> None
      | Some (acts, sys') \<Rightarrow> run ins (log @ acts, sys'))"

definition session :: "input list \<Rightarrow> (action list \<times> System) option" where
  "session ins = run ins ([], initialSystem)"

section \<open>Vocabulary of the properties\<close>

subsection \<open>State invariants\<close>

text \<open>
  The three implications between the step and the two media cells, and what makes them
  inductive: a suspended \<^verbatim>\<open>handleAnimate\<close> passed the test \<^verbatim>\<open>if (!logo) return\<close>, and
  no handler ever writes \<^verbatim>\<open>null\<close> to \<open>logo\<close>.
\<close>

definition needsLogo :: "task \<Rightarrow> bool" where
  "needsLogo t = (case t of Animate_animateLogo l p m \<Rightarrow> True | _ \<Rightarrow> False)"

definition wellFormed :: "AppState \<Rightarrow> bool" where
  "wellFormed s =
     ((animation s \<noteq> None \<longrightarrow> logo s \<noteq> None) \<and>
      (step s = Animate \<or> step s = View \<longrightarrow> logo s \<noteq> None) \<and>
      (step s = View \<longrightarrow> animation s \<noteq> None))"

definition invariant :: "System \<Rightarrow> bool" where
  "invariant sys =
     (wellFormed (app sys) \<and> (\<forall>t \<in> set (suspended sys). needsLogo t \<longrightarrow> logo (app sys) \<noteq> None))"

subsection \<open>Provenance of the stored animation\<close>

text \<open>
  A history variable, not a cell of the component: the logo whose bytes were passed to
  the \<^verbatim>\<open>animateLogo\<close> call that produced the animation now stored, that is the \<^verbatim>\<open>logo\<close>
  in the closure of the \<^verbatim>\<open>handleAnimate\<close> that last wrote \<open>animation\<close>.
\<close>

fun sourceAfter :: "input \<Rightarrow> System \<Rightarrow> LogoData option \<Rightarrow> LogoData option" where
  "sourceAfter (Deliver k (Settled_animateLogo (Fulfilled v))) sys src =
     (if k < length (suspended sys)
      then (case suspended sys ! k of Animate_animateLogo l p m \<Rightarrow> Some l | _ \<Rightarrow> src)
      else src)"
| "sourceAfter i sys src = src"

fun animatedFrom :: "input list \<Rightarrow> System \<Rightarrow> LogoData option \<Rightarrow> LogoData option" where
  "animatedFrom [] sys src = src"
| "animatedFrom (i # ins) sys src =
     (case dispatch i sys of
        None \<Rightarrow> src
      | Some (acts, sys') \<Rightarrow> animatedFrom ins sys' (sourceAfter i sys src))"

subsection \<open>Phases of a generation handler\<close>

text \<open>
  The tasks of \<^verbatim>\<open>handleGenerateLogo\<close> and \<^verbatim>\<open>handleAnimate\<close> (their interval is
  running), split by the \<^verbatim>\<open>await\<close> they stand at: the service call inside
  \<^verbatim>\<open>try\<close>, or the key picker inside \<^verbatim>\<open>catch\<close>.
\<close>

definition generating :: "task \<Rightarrow> bool" where
  "generating t =
     (case t of
        CheckApiKey_hasSelectedApiKey \<Rightarrow> False
      | CheckApiKey_openSelectKey \<Rightarrow> False
      | _ \<Rightarrow> True)"





text \<open>
  The progress messages that \<open>n\<close> firings of the interval write, starting at
  \<^verbatim>\<open>msgIndex\<close> \<open>i\<close>.
\<close>

definition ticks :: "string list \<Rightarrow> nat \<Rightarrow> nat \<Rightarrow> action list" where
  "ticks msgs i n = map (\<lambda>j. SetProgressMessage (msgs ! (j mod length msgs))) [i..<i + n]"

subsection \<open>Outcomes of the key check\<close>



subsection \<open>Navigation\<close>

text \<open>
  The controls whose handler is a bare \<^verbatim>\<open>setStep\<close>: the two header buttons, ``Next'',
  ``Back to Design'', ``Change Animation'' and ``Create New''.
\<close>

definition manualNavigation :: "control \<Rightarrow> bool" where
  "manualNavigation c =
     (c = Designer_nav \<or> c = Animator_nav \<or> c = NextAnimate_button \<or>
      c = BackToDesign_button \<or> c = ChangeAnimation_button \<or> c = CreateNew_button)"

subsection \<open>Replies of the video provider\<close>

text \<open>
  A reply to a status fetch after which the loop goes round again: the fetch resolved
  and the operation it returned is not done.
\<close>

definition stillRunning :: "Operation promise \<Rightarrow> bool" where
  "stillRunning reply = (case reply of Some (Fulfilled operation) \<Rightarrow> not_done operation | _ \<Rightarrow> False)"

subsection \<open>Sample data\<close>

text \<open>
  Two logos as \<^verbatim>\<open>generateLogo\<close> returns them; a session that goes from the first
  screen to the last, and the same session followed by ``Create New'' and a second logo; a
  state with a logo on the Animate screen and a system on the View screen.
\<close>

definition owl :: GeneratedLogo where
  "owl = \<lparr>url = ''data:image/png;base64,b3ds'', base64 = ''b3ds'', mimeType = ''image/png''\<rparr>"

definition fox :: GeneratedLogo where
  "fox = \<lparr>url = ''data:image/png;base64,Zm94'', base64 = ''Zm94'', mimeType = ''image/png''\<rparr>"

definition toView :: "input list" where
  "toView =
     [User GetStarted_button, Deliver 0 (Settled_hasSelectedApiKey (Fulfilled True)),
      User (Generate_button ''blue owl logo''), Deliver 0 Tick,
      Deliver 0 (Settled_generateLogo (Fulfilled owl)),
      User NextAnimate_button, User (Animate_button ''pages turn slowly''),
      Deliver 0 (Settled_animateLogo (Fulfilled ''blob:1''))]"

definition regenerated :: "input list" where
  "regenerated =
     toView @ [User CreateNew_button, User (Generate_button ''red fox logo''),
               Deliver 0 (Settled_generateLogo (Fulfilled fox))]"

definition withOwl :: AppState where
  "withOwl = initialState\<lparr>step := Animate,
     logo := Some (GeneratedLogo.extend owl (LogoData.fields ''blue owl logo''))\<rparr>"

definition viewing :: System where
  "viewing =
     \<lparr>app = withOwl\<lparr>step := View,
              animation := Some \<lparr>videoUrl = ''blob:1'', animationPrompt = ''pages turn slowly''\<rparr>\<rparr>,
      suspended = []\<rparr>"

text \<open>
  Two replies of the image provider, without and with an inline payload, and a provider
  that gives a fixed reply.
\<close>

definition noInline :: GenerateContentResponse where
  "noInline =
     GenerateContentResponse
       (Some [Candidate (Some (Content (Some [Part (Some ''I cannot draw that.'') None])))])"

definition oneInline :: GenerateContentResponse where
  "oneInline =
     GenerateContentResponse
       (Some [Candidate (Some (Content (Some
          [Part (Some ''Here is your logo.'') None,
           Part None (Some (InlineData ''b3ds'' None))])))])"

definition answering :: "GenerateContentResponse \<Rightarrow> Provider" where
  "answering resp =
     \<lparr>API_KEY = Some ''k'', generateContent = (\<lambda>req. Some (Fulfilled resp)),
      generateVideos = (\<lambda>req. None), getVideosOperation = (\<lambda>n. None),
      fetch = (\<lambda>u. None), createObjectURL = (\<lambda>b. ''blob:'' @ b)\<rparr>"

text \<open>
  Video providers: the operation as first returned and as completed, a provider built
  from the first operation, the replies to the status fetches and the behaviour of
  \<^verbatim>\<open>fetch\<close>; replies that always throw, that report completion at the third fetch,
  and that never do; a download that never answers and one that serves a fixed
  response.
\<close>

definition submitted :: Operation where
  "submitted = Operation None None"

definition completed :: Operation where
  "completed =
     Operation (Some True)
       (Some (GenerateVideosResponse (Some [GeneratedVideo (Some (Video (Some ''https://files/v1?alt=media'')))])))"

definition providerOf ::
  "Operation \<Rightarrow> (nat \<Rightarrow> Operation promise) \<Rightarrow> (string \<Rightarrow> Response promise) \<Rightarrow> Provider" where
  "providerOf first replies fetching =
     \<lparr>API_KEY = Some ''k'', generateContent = (\<lambda>req. None),
      generateVideos = (\<lambda>req. Some (Fulfilled first)), getVideosOperation = replies,
      fetch = fetching, createObjectURL = (\<lambda>bytes. ''blob:'' @ bytes)\<rparr>"

definition alwaysFailing :: "nat \<Rightarrow> Operation promise" where
  "alwaysFailing n = Some (Rejected (JsError (Some ''429: quota exceeded'')))"

definition doneAtThird :: "nat \<Rightarrow> Operation promise" where
  "doneAtThird n = Some (Fulfilled (if n < 2 then submitted else completed))"

definition neverDone :: "nat \<Rightarrow> Operation promise" where
  "neverDone n = Some (Fulfilled submitted)"

definition unreachable :: "string \<Rightarrow> Response promise" where
  "unreachable u = None"

definition serving :: "Response \<Rightarrow> string \<Rightarrow> Response promise" where
  "serving resp u = Some (Fulfilled resp)"

section \<open>Basic facts\<close>





text \<open>
Actions in sequence, and the cells an action leaves alone.
\<close>

lemma performAll_append: "performAll (xs @ ys) s = performAll ys (performAll xs s)"
  by (simp add: performAll_def)

lemma perform_keeps_logo: "logo s \<noteq> None \<Longrightarrow> logo (perform a s) \<noteq> None"
  by (cases a) simp_all

lemma perform_keeps_animation: "animation s \<noteq> None \<Longrightarrow> animation (perform a s) \<noteq> None"
  by (cases a) simp_all

lemma performAll_keeps_logo: "logo s \<noteq> None \<Longrightarrow> logo (performAll acts s) \<noteq> None"
  unfolding performAll_def
proof (induction acts arbitrary: s)
  case Nil
  then show ?case by simp
next
  case (Cons a acts)
  show ?case using Cons.IH [OF perform_keeps_logo [OF Cons.prems]] by simp
qed

lemma performAll_keeps_animation:
  "animation s \<noteq> None \<Longrightarrow> animation (performAll acts s) \<noteq> None"
  unfolding performAll_def
proof (induction acts arbitrary: s)
  case Nil
  then show ?case by simp
next
  case (Cons a acts)
  show ?case using Cons.IH [OF perform_keeps_animation [OF Cons.prems]] by simp
qed





text \<open>
Unfolding the sample sessions.
\<close>

lemmas scenario_defs =
  session_def initialSystem_def initialState_def checkApiKey_def handleGenerateLogo_def
  handleAnimate_def performAll_def settle_def finallyBlock_def catchBlock_def
  GeneratedLogo.defs LogoData.defs loadingMessages_def animationMessages_def

section \<open>Invariants of the reachable states\<close>

text \<open>
  What a resumed handler can do to the step and to the animation: only a
  \<^verbatim>\<open>handleAnimate\<close> writes the animation or goes to View, and it does both together.
\<close>

lemma resume_step:
  assumes "resume t ev = Some (acts, t')"
  shows "step (performAll acts s) = step s \<or> step (performAll acts s) = Design \<or>
         (needsLogo t \<and> step (performAll acts s) = View \<and> animation (performAll acts s) \<noteq> None)"
  using assms
  by (cases "(t, ev)" rule: resume.cases)
     (auto simp: catchBlock_def finallyBlock_def performAll_def needsLogo_def split: if_splits)

lemma resume_animation:
  assumes "resume t ev = Some (acts, t')"
  shows "animation (performAll acts s) = animation s \<or> needsLogo t"
  using assms
  by (cases "(t, ev)" rule: resume.cases)
     (auto simp: catchBlock_def finallyBlock_def performAll_def needsLogo_def split: if_splits)

lemma resume_needsLogo:
  assumes "resume t ev = Some (acts, Some u)" "needsLogo u"
  shows "needsLogo t"
  using assms
  by (cases "(t, ev)" rule: resume.cases)
     (auto simp: catchBlock_def finallyBlock_def needsLogo_def split: if_splits)

lemma resume_wellFormed:
  assumes r: "resume t ev = Some (acts, t')" and wf: "wellFormed s"
    and nl: "needsLogo t \<longrightarrow> logo s \<noteq> None"
  shows "wellFormed (performAll acts s)"
proof -
  let ?s' = "performAll acts s"
  have a: "animation ?s' \<noteq> None \<longrightarrow> logo ?s' \<noteq> None"
    using resume_animation [OF r, of s] wf nl performAll_keeps_logo [of s acts]
    by (auto simp: wellFormed_def)
  have b: "step ?s' = Animate \<or> step ?s' = View \<longrightarrow> logo ?s' \<noteq> None"
    using resume_step [OF r, of s] wf nl performAll_keeps_logo [of s acts]
    by (auto simp: wellFormed_def)
  have c: "step ?s' = View \<longrightarrow> animation ?s' \<noteq> None"
    using resume_step [OF r, of s] wf performAll_keeps_animation [of s acts]
    by (auto simp: wellFormed_def)
  show ?thesis using a b c by (simp add: wellFormed_def)
qed

lemma set_settle: "set (settle ts i t) \<subseteq> set ts \<union> set_option t"
proof (cases t)
  case None
  then show ?thesis by (auto simp: settle_def dest: in_set_takeD in_set_dropD)
next
  case (Some u)
  then show ?thesis using set_update_subset_insert [of ts i u] by (auto simp: settle_def)
qed

lemma onClick_wellFormed:
  assumes "rendered c s" "onClick c s = (acts, t')" "wellFormed s"
  shows "wellFormed (performAll acts s) \<and>
         (\<forall>u. t' = Some u \<longrightarrow> needsLogo u \<longrightarrow> logo (performAll acts s) \<noteq> None)"
  using assms
  by (cases c)
     (auto simp: checkApiKey_def handleGenerateLogo_def handleAnimate_def performAll_def
        wellFormed_def needsLogo_def split: if_splits option.splits)

lemma dispatch_invariant:
  assumes d: "dispatch i sys = Some (acts, sys')" and inv: "invariant sys"
  shows "invariant sys'"
proof (cases i)
  case (Deliver k ev)
  from d Deliver obtain t' where k: "k < length (suspended sys)"
    and r: "resume (suspended sys ! k) ev = Some (acts, t')"
    and sys': "sys' = \<lparr>app = performAll acts (app sys), suspended = settle (suspended sys) k t'\<rparr>"
    by (auto split: if_splits option.splits)
  let ?t = "suspended sys ! k"
  from k have mem: "?t \<in> set (suspended sys)" by simp
  have nl: "needsLogo ?t \<longrightarrow> logo (app sys) \<noteq> None"
    using inv mem unfolding invariant_def by blast
  from inv have wf: "wellFormed (app sys)" by (simp add: invariant_def)
  have wf': "wellFormed (app sys')" using resume_wellFormed [OF r wf nl] sys' by simp
  have "logo (app sys') \<noteq> None" if u: "u \<in> set (suspended sys')" and n: "needsLogo u" for u
  proof -
    from u sys' set_settle [of "suspended sys" k t']
    have "u \<in> set (suspended sys) \<or> t' = Some u" by auto
    then have "logo (app sys) \<noteq> None"
    proof
      assume "u \<in> set (suspended sys)"
      with inv n show ?thesis unfolding invariant_def by blast
    next
      assume "t' = Some u"
      with r n have "needsLogo ?t" using resume_needsLogo by blast
      with nl show ?thesis by simp
    qed
    then show ?thesis using performAll_keeps_logo sys' by simp
  qed
  with wf' show ?thesis unfolding invariant_def by blast
next
  case (User c)
  from d User obtain t' where rd: "rendered c (app sys)"
    and oc: "onClick c (app sys) = (acts, t')"
    and sys': "sys' = \<lparr>app = performAll acts (app sys),
                 suspended = suspended sys @ (case t' of None \<Rightarrow> [] | Some u \<Rightarrow> [u])\<rparr>"
    by (auto split: if_splits prod.splits)
  from inv have wf: "wellFormed (app sys)" by (simp add: invariant_def)
  note oc' = onClick_wellFormed [OF rd oc wf]
  have "logo (app sys') \<noteq> None" if u: "u \<in> set (suspended sys')" and n: "needsLogo u" for u
  proof -
    from u sys' have "u \<in> set (suspended sys) \<or> t' = Some u"
      by (auto split: option.splits)
    then show ?thesis
    proof
      assume "u \<in> set (suspended sys)"
      with inv n have "logo (app sys) \<noteq> None" unfolding invariant_def by blast
      then show ?thesis using performAll_keeps_logo sys' by simp
    next
      assume "t' = Some u"
      with oc' n sys' show ?thesis by simp
    qed
  qed
  moreover from oc' sys' have "wellFormed (app sys')" by simp
  ultimately show ?thesis unfolding invariant_def by blast
qed

lemma run_invariant:
  assumes "run ins (log, sys) = Some (log', sys')" "invariant sys"
  shows "invariant sys'"
  using assms
proof (induction ins arbitrary: log sys)
  case Nil
  then show ?case by simp
next
  case (Cons i ins)
  from Cons.prems(1) obtain acts sys1 where d: "dispatch i sys = Some (acts, sys1)"
    and r: "run ins (log @ acts, sys1) = Some (log', sys')"
    by (auto split: option.splits)
  show ?case using Cons.IH [OF r dispatch_invariant [OF d Cons.prems(2)]] .
qed

lemma invariant_initialSystem: "invariant initialSystem"
  by (simp add: invariant_def wellFormed_def initialSystem_def initialState_def)

text \<open>
  Claim C1, the part that holds. In every state that a session reaches (any clicks the
  rendered controls allow, any interleaving of the suspended handlers, any outcomes of
  the calls): a populated animation implies a populated logo, the steps Animate and View
  imply a populated logo, and the step View implies a populated animation.
\<close>

theorem reachable_states_well_formed:
  assumes "session ins = Some (log, sys)"
  shows "(animation (app sys) \<noteq> None \<longrightarrow> logo (app sys) \<noteq> None) \<and>
         (step (app sys) = Animate \<or> step (app sys) = View \<longrightarrow> logo (app sys) \<noteq> None) \<and>
         (step (app sys) = View \<longrightarrow> animation (app sys) \<noteq> None)"
  using run_invariant [OF assms [unfolded session_def] invariant_initialSystem]
  by (simp add: invariant_def wellFormed_def)

text \<open>
  The session \<open>toView\<close> reaches the step View, with both media cells populated.
\<close>

theorem reachable_states_well_formed_witness:
  "(case session toView of
      None \<Rightarrow> False
    | Some (log, sys) \<Rightarrow>
        step (app sys) = View \<and> animation (app sys) \<noteq> None \<and> logo (app sys) \<noteq> None)"
proof -
  obtain log sys where e: "session toView = Some (log, sys)" and v: "step (app sys) = View"
    by (simp add: toView_def owl_def scenario_defs)
  from reachable_states_well_formed [OF e] v show ?thesis by (simp add: e)
qed

text \<open>
  Claim C1, the remark that the animation always derives from the current logo, fails:
  ``Create New'' clears nothing and a new logo replaces the old one, so after the session
  \<open>regenerated\<close> the stored logo is the fox while the stored animation is still the one
  made from the owl.
\<close>

theorem animation_of_replaced_logo:
  "map_option (logo \<circ> app \<circ> snd) (session regenerated) =
     Some (Some (GeneratedLogo.extend fox (LogoData.fields ''red fox logo''))) \<and>
   map_option (animation \<circ> app \<circ> snd) (session regenerated) =
     Some (Some \<lparr>videoUrl = ''blob:1'', animationPrompt = ''pages turn slowly''\<rparr>) \<and>
   animatedFrom regenerated initialSystem None =
     Some (GeneratedLogo.extend owl (LogoData.fields ''blue owl logo'')) \<and>
   GeneratedLogo.extend owl (LogoData.fields ''blue owl logo'') \<noteq>
     GeneratedLogo.extend fox (LogoData.fields ''red fox logo'')"
  by (simp add: regenerated_def toView_def owl_def fox_def scenario_defs)

section \<open>One call of a generation handler\<close>










section \<open>Credential recovery\<close>








section \<open>The key check\<close>




section \<open>Animation needs a logo\<close>

lemma resume_no_animateLogo:
  "resume t ev = Some (a, left) \<Longrightarrow> Call_animateLogo b m q r \<notin> set a"
  by (cases "(t, ev)" rule: resume.cases)
     (auto simp: catchBlock_def finallyBlock_def split: if_splits)

lemma onClick_animateLogo:
  assumes "onClick c s = (a, left)" "Call_animateLogo b m q r \<in> set a"
  shows "\<exists>l. logo s = Some l \<and> b = base64 l \<and> m = mimeType l"
  using assms
  by (cases c)
     (auto simp: checkApiKey_def handleGenerateLogo_def handleAnimate_def
        split: if_splits option.splits)

text \<open>
  Claim C6. Whatever input the component takes, in any state, \<^verbatim>\<open>animateLogo\<close> is
  called only when \<open>logo\<close> is populated, and with that logo's bytes and mime type.
  \<^verbatim>\<open>handleAnimate\<close> without a logo does nothing at all: no action (so no write to the
  busy flag, the error or the step, and no interval) and no suspended task. The header's
  Animator button without a logo changes nothing.
\<close>

theorem animateLogo_only_with_logo:
  "(dispatch i sys = Some (acts, sys') \<longrightarrow> Call_animateLogo b m q r \<in> set acts \<longrightarrow>
      (\<exists>l. logo (app sys) = Some l \<and> b = base64 l \<and> m = mimeType l)) \<and>
   (logo s = None \<longrightarrow> handleAnimate p s = ([], None)) \<and>
   (logo (app sys) = None \<longrightarrow> dispatch (User Animator_nav) sys = Some ([], sys))"
proof (intro conjI impI)
  assume d: "dispatch i sys = Some (acts, sys')" and c: "Call_animateLogo b m q r \<in> set acts"
  show "\<exists>l. logo (app sys) = Some l \<and> b = base64 l \<and> m = mimeType l"
  proof (cases i)
    case (Deliver k ev)
    with d obtain t' where "resume (suspended sys ! k) ev = Some (acts, t')"
      by (auto split: if_splits option.splits)
    with c resume_no_animateLogo show ?thesis by blast
  next
    case (User ctl)
    with d obtain t' where "onClick ctl (app sys) = (acts, t')"
      by (auto split: if_splits prod.splits)
    from onClick_animateLogo [OF this c] show ?thesis .
  qed
next
  assume "logo s = None"
  then show "handleAnimate p s = ([], None)" by (simp add: handleAnimate_def)
next
  assume "logo (app sys) = None"
  then show "dispatch (User Animator_nav) sys = Some ([], sys)" by (simp add: performAll_def)
qed

text \<open>
  With the owl logo the Animate button calls \<^verbatim>\<open>animateLogo\<close> on the owl's bytes; in
  the initial state, which has no logo, the handler and the header button do nothing.
\<close>

theorem animateLogo_only_with_logo_witness:
  "dispatch (User (Animate_button ''pages turn slowly'')) \<lparr>app = withOwl, suspended = []\<rparr> =
     Some ([SetIsGenerating True, SetError None, SetInterval 4000,
            Call_animateLogo ''b3ds'' ''image/png'' ''pages turn slowly'' Ratio_16_9],
           \<lparr>app = withOwl\<lparr>isGenerating := True, error := None\<rparr>,
            suspended = [Animate_animateLogo
               (GeneratedLogo.extend owl (LogoData.fields ''blue owl logo''))
               ''pages turn slowly'' 0]\<rparr>) \<and>
   (\<exists>l. logo withOwl = Some l \<and> ''b3ds'' = base64 l \<and> ''image/png'' = mimeType l) \<and>
   logo initialState = None \<and>
   handleAnimate ''pages turn slowly'' initialState = ([], None) \<and>
   dispatch (User Animator_nav) initialSystem = Some ([], initialSystem)"
proof -
  have d: "dispatch (User (Animate_button ''pages turn slowly'')) \<lparr>app = withOwl, suspended = []\<rparr> =
     Some ([SetIsGenerating True, SetError None, SetInterval 4000,
            Call_animateLogo ''b3ds'' ''image/png'' ''pages turn slowly'' Ratio_16_9],
           \<lparr>app = withOwl\<lparr>isGenerating := True, error := None\<rparr>,
            suspended = [Animate_animateLogo
               (GeneratedLogo.extend owl (LogoData.fields ''blue owl logo''))
               ''pages turn slowly'' 0]\<rparr>)"
    by (simp add: withOwl_def owl_def initialState_def handleAnimate_def performAll_def
          GeneratedLogo.defs LogoData.defs)
  have n: "logo initialState = None" "logo (app initialSystem) = None"
    by (simp_all add: initialState_def initialSystem_def)
  note inst = animateLogo_only_with_logo
    [of "User (Animate_button ''pages turn slowly'')" "\<lparr>app = withOwl, suspended = []\<rparr>" _ _
        "''b3ds''" "''image/png''" "''pages turn slowly''" Ratio_16_9 initialState
        "''pages turn slowly''"]
  from inst d have "\<exists>l. logo withOwl = Some l \<and> ''b3ds'' = base64 l \<and> ''image/png'' = mimeType l"
    by simp
  moreover from inst n have "handleAnimate ''pages turn slowly'' initialState = ([], None)" by blast
  moreover from animateLogo_only_with_logo [of _ initialSystem] n
  have "dispatch (User Animator_nav) initialSystem = Some ([], initialSystem)" by blast
  ultimately show ?thesis using d n by blast
qed

section \<open>Manual navigation\<close>

text \<open>
  Claim C10. A manual navigation changes the step and nothing else, in the state cells
  and in the suspended handlers. In particular ``Create New'' on the View screen and
  ``Back to Design'' on the Animate screen set the step to Design and keep \<open>logo\<close> and
  \<open>animation\<close> as they are.
\<close>

theorem navigation_changes_step_only:
  "(manualNavigation c \<longrightarrow> dispatch (User c) sys = Some (acts, sys') \<longrightarrow>
      sys' = sys\<lparr>app := (app sys)\<lparr>step := step (app sys')\<rparr>\<rparr>) \<and>
   (step (app sys) = View \<longrightarrow> animation (app sys) \<noteq> None \<longrightarrow>
      dispatch (User CreateNew_button) sys =
        Some ([SetStep Design], sys\<lparr>app := (app sys)\<lparr>step := Design\<rparr>\<rparr>)) \<and>
   (step (app sys) = Animate \<longrightarrow> logo (app sys) \<noteq> None \<longrightarrow>
      dispatch (User BackToDesign_button) sys =
        Some ([SetStep Design], sys\<lparr>app := (app sys)\<lparr>step := Design\<rparr>\<rparr>))"
proof (intro conjI impI)
  assume n: "manualNavigation c" and d: "dispatch (User c) sys = Some (acts, sys')"
  from d obtain t where r: "rendered c (app sys)" and o: "onClick c (app sys) = (acts, t)"
    and sys': "sys' = \<lparr>app = performAll acts (app sys),
                 suspended = suspended sys @ (case t of None \<Rightarrow> [] | Some u \<Rightarrow> [u])\<rparr>"
    by (auto split: if_splits prod.splits)
  from n o have "t = None \<and> (acts = [] \<or> (\<exists>x. acts = [SetStep x]))"
    by (auto simp: manualNavigation_def split: if_splits)
  then have "suspended sys' = suspended sys"
    and "app sys' = (app sys)\<lparr>step := step (app sys')\<rparr>"
    using sys' by (auto simp: performAll_def)
  then show "sys' = sys\<lparr>app := (app sys)\<lparr>step := step (app sys')\<rparr>\<rparr>" by simp
next
  assume "step (app sys) = View" "animation (app sys) \<noteq> None"
  then show "dispatch (User CreateNew_button) sys =
      Some ([SetStep Design], sys\<lparr>app := (app sys)\<lparr>step := Design\<rparr>\<rparr>)"
    by (simp add: performAll_def)
next
  assume "step (app sys) = Animate" "logo (app sys) \<noteq> None"
  then show "dispatch (User BackToDesign_button) sys =
      Some ([SetStep Design], sys\<lparr>app := (app sys)\<lparr>step := Design\<rparr>\<rparr>)"
    by (simp add: performAll_def)
qed

text \<open>
``Create New'' from the View screen keeps the owl and its animation.
\<close>

theorem navigation_changes_step_only_witness:
  "manualNavigation CreateNew_button \<and> step (app viewing) = View \<and> animation (app viewing) \<noteq> None \<and>
   dispatch (User CreateNew_button) viewing =
     Some ([SetStep Design], viewing\<lparr>app := (app viewing)\<lparr>step := Design\<rparr>\<rparr>) \<and>
   logo (app (viewing\<lparr>app := (app viewing)\<lparr>step := Design\<rparr>\<rparr>)) = logo (app viewing) \<and>
   animation (app (viewing\<lparr>app := (app viewing)\<lparr>step := Design\<rparr>\<rparr>)) = animation (app viewing) \<and>
   logo (app viewing) \<noteq> None"
proof -
  have v: "step (app viewing) = View" "animation (app viewing) \<noteq> None" "logo (app viewing) \<noteq> None"
    by (simp_all add: viewing_def withOwl_def)
  have m: "manualNavigation CreateNew_button" by (simp add: manualNavigation_def)
  from navigation_changes_step_only [of CreateNew_button viewing] v m show ?thesis by simp
qed

section \<open>Logo generation, end to end\<close>

text \<open>
  Any number of firings of the interval while the logo call is pending; they write
  the progress message only.
\<close>

lemma ticks_Suc: "ticks msgs i (Suc n) = SetProgressMessage (msgs ! (i mod length msgs)) # ticks msgs (Suc i) n"
  by (simp add: ticks_def upt_rec)

lemma drive_ticks_generateLogo:
  "drive (acts, Some (GenerateLogo_generateLogo d i)) (replicate n Tick @ evs) =
   drive (acts @ ticks loadingMessages i n, Some (GenerateLogo_generateLogo d (i + n))) evs"
proof (induction n arbitrary: acts i)
  case 0
  then show ?case by (simp add: ticks_def)
next
  case (Suc n)
  show ?case using Suc.IH [of "acts @ [SetProgressMessage (loadingMessages ! (i mod length loadingMessages))]" "Suc i"]
    by (simp add: ticks_Suc)
qed

lemma perform_ticks:
  "performAll (ticks msgs i n) s = s\<lparr>progressMessage := progressMessage (performAll (ticks msgs i n) s)\<rparr>"
proof (induction n arbitrary: i s)
  case 0
  then show ?case by (simp add: ticks_def performAll_def)
next
  case (Suc n)
  let ?s1 = "s\<lparr>progressMessage := msgs ! (i mod length msgs)\<rparr>"
  have "performAll (ticks msgs i (Suc n)) s = performAll (ticks msgs (Suc i) n) ?s1"
    by (simp add: ticks_Suc performAll_def)
  with Suc.IH [of "Suc i" ?s1] show ?case by simp
qed

lemma firstInlineImage_None:
  "firstInlineImage ps = None \<longleftrightarrow> (\<forall>p \<in> set ps. inlineData p = None)"
  by (induction ps) (auto split: option.splits InlineData.splits simp: Let_def)

lemma NoImageReturned_not_entityNotFound: "\<not> entityNotFound NoImageReturned"
  by (simp add: entityNotFound_def NoImageReturned_def notFound_def)

text \<open>
  Claim C9. For every description \<open>D\<close> and every state (so every image size), when
  \<^verbatim>\<open>generateLogo\<close> called with \<open>D\<close> and the state's image size fulfils with \<open>r\<close>,
  the call of \<^verbatim>\<open>handleGenerateLogo\<close>, with any number of interval firings before the
  settlement, returns having called \<^verbatim>\<open>generateLogo\<close> with \<open>D\<close> and that size; the logo
  cell then holds \<open>r\<close> extended by the prompt \<open>D\<close>, the step is Design and busy is
  false.
\<close>

theorem generated_logo_stored:
  assumes "generateLogo ai D (imageSize s) = Some (Fulfilled r)"
  shows "\<exists>trace.
           drive (handleGenerateLogo D s) (replicate n Tick @ [Settled_generateLogo (Fulfilled r)]) =
             Some (trace, None) \<and>
           Call_generateLogo D (imageSize s) \<in> set trace \<and>
           logo (performAll trace s) = Some (GeneratedLogo.extend r (LogoData.fields D)) \<and>
           map_option prompt (logo (performAll trace s)) = Some D \<and>
           step (performAll trace s) = Design \<and>
           \<not> isGenerating (performAll trace s)"
proof -
  let ?a0 = "[SetIsGenerating True, SetError None, SetInterval 3000, Call_generateLogo D (imageSize s)]"
  let ?fin = "[SetLogo (GeneratedLogo.extend r (LogoData.fields D)), SetStep Design,
               ClearInterval, SetIsGenerating False]"
  let ?trace = "?a0 @ ticks loadingMessages 0 n @ ?fin"
  have d: "drive (handleGenerateLogo D s) (replicate n Tick @ [Settled_generateLogo (Fulfilled r)]) =
             Some (?trace, None)"
    by (simp add: handleGenerateLogo_def drive_ticks_generateLogo finallyBlock_def)
  have p: "performAll ?trace s =
             performAll ?fin (performAll (ticks loadingMessages 0 n) (performAll ?a0 s))"
    by (simp only: performAll_append)
  have f: "logo (performAll ?trace s) = Some (GeneratedLogo.extend r (LogoData.fields D))"
    "step (performAll ?trace s) = Design" "\<not> isGenerating (performAll ?trace s)"
    unfolding p by (subst perform_ticks, simp add: performAll_def)+
  have "map_option prompt (logo (performAll ?trace s)) = Some D"
    unfolding f by (simp add: GeneratedLogo.defs LogoData.defs)
  with d f show ?thesis by (intro exI [of _ ?trace]) simp
qed

text \<open>
A provider whose reply carries one inline image with no mime type.
\<close>

theorem generated_logo_stored_witness:
  "generateLogo (answering oneInline) ''blue owl logo'' (imageSize initialState) =
     Some (Fulfilled \<lparr>url = ''data:image/png;base64,b3ds'', base64 = ''b3ds'', mimeType = ''image/png''\<rparr>) \<and>
   (\<exists>trace.
      drive (handleGenerateLogo ''blue owl logo'' initialState)
        (replicate 2 Tick @ [Settled_generateLogo (Fulfilled
           \<lparr>url = ''data:image/png;base64,b3ds'', base64 = ''b3ds'', mimeType = ''image/png''\<rparr>)]) =
        Some (trace, None) \<and>
      map_option prompt (logo (performAll trace initialState)) = Some ''blue owl logo'' \<and>
      step (performAll trace initialState) = Design)"
proof -
  have g: "generateLogo (answering oneInline) ''blue owl logo'' (imageSize initialState) =
     Some (Fulfilled \<lparr>url = ''data:image/png;base64,b3ds'', base64 = ''b3ds'', mimeType = ''image/png''\<rparr>)"
    by (simp add: generateLogo_def answering_def oneInline_def firstCandidateParts_def or_else_def)
  from generated_logo_stored [OF g, of 2] g show ?thesis by blast
qed

text \<open>
  Claim C4. When the reply of the provider has no part with inline data among the
  parts of its first candidate (also when it has no candidate, content or parts),
  \<^verbatim>\<open>generateLogo\<close> rejects with the error ``No image data returned from model.'', and
  the call of \<^verbatim>\<open>handleGenerateLogo\<close> that receives this rejection returns with the
  logo, the step, the image size, the aspect ratio and the animation unchanged, busy
  false, the error cell holding that message, and the key picker not opened.
\<close>

theorem no_inline_image:
  assumes "generateContent ai (logoRequest D (imageSize s)) = Some (Fulfilled resp)"
    and "\<forall>p \<in> set (firstCandidateParts resp). inlineData p = None"
  shows "generateLogo ai D (imageSize s) = Some (Rejected NoImageReturned) \<and>
         (\<exists>trace.
            drive (handleGenerateLogo D s) (replicate n Tick @ [Settled_generateLogo (Rejected NoImageReturned)]) =
              Some (trace, None) \<and>
            logo (performAll trace s) = logo s \<and>
            step (performAll trace s) = step s \<and>
            imageSize (performAll trace s) = imageSize s \<and>
            aspectRatio (performAll trace s) = aspectRatio s \<and>
            animation (performAll trace s) = animation s \<and>
            \<not> isGenerating (performAll trace s) \<and>
            error (performAll trace s) = Some ''No image data returned from model.'' \<and>
            Call_openSelectKey \<notin> set trace)"
proof -
  have g: "generateLogo ai D (imageSize s) = Some (Rejected NoImageReturned)"
    using assms firstInlineImage_None [of "firstCandidateParts resp"]
    by (simp add: generateLogo_def)
  let ?a0 = "[SetIsGenerating True, SetError None, SetInterval 3000, Call_generateLogo D (imageSize s)]"
  let ?fin = "[SetError (Some ''No image data returned from model.''), ClearInterval, SetIsGenerating False]"
  let ?trace = "?a0 @ ticks loadingMessages 0 n @ ?fin"
  have d: "drive (handleGenerateLogo D s) (replicate n Tick @ [Settled_generateLogo (Rejected NoImageReturned)]) =
             Some (?trace, None)"
    using NoImageReturned_not_entityNotFound
    by (simp add: handleGenerateLogo_def drive_ticks_generateLogo finallyBlock_def catchBlock_def)
       (simp add: NoImageReturned_def or_else_def)
  have p: "performAll ?trace s =
             performAll ?fin (performAll (ticks loadingMessages 0 n) (performAll ?a0 s))"
    by (simp only: performAll_append)
  have f: "logo (performAll ?trace s) = logo s" "step (performAll ?trace s) = step s"
    "imageSize (performAll ?trace s) = imageSize s" "aspectRatio (performAll ?trace s) = aspectRatio s"
    "animation (performAll ?trace s) = animation s" "\<not> isGenerating (performAll ?trace s)"
    "error (performAll ?trace s) = Some ''No image data returned from model.''"
    unfolding p by (subst perform_ticks, simp add: performAll_def)+
  have c: "Call_openSelectKey \<notin> set ?trace" by (auto simp: ticks_def)
  from d f c have "drive (handleGenerateLogo D s) (replicate n Tick @ [Settled_generateLogo (Rejected NoImageReturned)]) =
              Some (?trace, None) \<and>
            logo (performAll ?trace s) = logo s \<and>
            step (performAll ?trace s) = step s \<and>
            imageSize (performAll ?trace s) = imageSize s \<and>
            aspectRatio (performAll ?trace s) = aspectRatio s \<and>
            animation (performAll ?trace s) = animation s \<and>
            \<not> isGenerating (performAll ?trace s) \<and>
            error (performAll ?trace s) = Some ''No image data returned from model.'' \<and>
            Call_openSelectKey \<notin> set ?trace" by blast
  then have "\<exists>trace. drive (handleGenerateLogo D s) (replicate n Tick @ [Settled_generateLogo (Rejected NoImageReturned)]) =
              Some (trace, None) \<and>
            logo (performAll trace s) = logo s \<and>
            step (performAll trace s) = step s \<and>
            imageSize (performAll trace s) = imageSize s \<and>
            aspectRatio (performAll trace s) = aspectRatio s \<and>
            animation (performAll trace s) = animation s \<and>
            \<not> isGenerating (performAll trace s) \<and>
            error (performAll trace s) = Some ''No image data returned from model.'' \<and>
            Call_openSelectKey \<notin> set trace" by (rule exI)
  with g show ?thesis by (rule conjI)
qed

text \<open>
A reply whose only part is text.
\<close>

theorem no_inline_image_witness:
  "generateContent (answering noInline) (logoRequest ''blue owl logo'' (imageSize initialState)) =
     Some (Fulfilled noInline) \<and>
   firstCandidateParts noInline = [Part (Some ''I cannot draw that.'') None] \<and>
   inlineData (Part (Some ''I cannot draw that.'') None) = None \<and>
   generateLogo (answering noInline) ''blue owl logo'' (imageSize initialState) =
     Some (Rejected NoImageReturned)"
proof -
  have a: "generateContent (answering noInline) (logoRequest ''blue owl logo'' (imageSize initialState)) =
     Some (Fulfilled noInline)" by (simp add: answering_def)
  have b: "\<forall>p \<in> set (firstCandidateParts noInline). inlineData p = None"
    "firstCandidateParts noInline = [Part (Some ''I cannot draw that.'') None]"
    "inlineData (Part (Some ''I cannot draw that.'') None) = None"
    by (simp_all add: noInline_def firstCandidateParts_def)
  from no_inline_image [OF a b(1)] a b(2,3) show ?thesis by blast
qed

section \<open>The polling loop\<close>

text \<open>
One round of the loop, by the reply to the status fetch.
\<close>

lemma poll_done: "\<not> not_done operation \<Longrightarrow> poll g slept operation = Some (slept, Fulfilled operation)"
  by (subst poll.simps) simp

lemma poll_again:
  "not_done operation \<Longrightarrow> g (length slept) = Some (Fulfilled operation') \<Longrightarrow>
   poll g slept operation = poll g (slept @ [10000]) operation'"
  by (subst poll.simps) simp

lemma poll_throws:
  "not_done operation \<Longrightarrow> g (length slept) = Some (Rejected e) \<Longrightarrow>
   poll g slept operation = Some (slept @ [10000], Rejected e)"
  by (subst poll.simps) simp

lemma poll_hangs:
  "not_done operation \<Longrightarrow> g (length slept) = None \<Longrightarrow> poll g slept operation = None"
  by (subst poll.simps) simp

lemma poll_running:
  assumes "not_done operation" "\<And>k. k < n \<Longrightarrow> stillRunning (g (length slept + k))"
  shows "\<exists>operation'. not_done operation' \<and>
           poll g slept operation = poll g (slept @ replicate n 10000) operation'"
  using assms
proof (induction n arbitrary: slept operation)
  case 0
  then show ?case by auto
next
  case (Suc n)
  from Suc.prems(2) [of 0] obtain o1 where g0: "g (length slept) = Some (Fulfilled o1)"
    and o1: "not_done o1"
    by (auto simp: stillRunning_def split: option.splits settled.splits)
  have "\<And>k. k < n \<Longrightarrow> stillRunning (g (length (slept @ [10000]) + k))"
    using Suc.prems(2) by (metis Suc_less_eq add_Suc_shift length_append_singleton)
  from Suc.IH [OF o1 this] obtain o' where "not_done o'"
    "poll g (slept @ [10000]) o1 = poll g ((slept @ [10000]) @ replicate n 10000) o'" by blast
  with poll_again [of operation g slept o1, OF Suc.prems(1) g0] show ?case by (auto simp: replicate_append_same)
qed

lemma poll_first_reply:
  assumes "not_done operation" "\<forall>k<n. stillRunning (g k)"
  shows "\<exists>operation'. not_done operation' \<and> poll g [] operation = poll g (replicate n 10000) operation'"
  using poll_running [of operation n g "[]"] assms by simp

text \<open>
  A loop whose every reply keeps it running, or never arrives, does not return; and
  the operation that the loop returns is done.
\<close>

lemma poll_never_exits:
  "poll g slept operation = Some y \<Longrightarrow> not_done operation \<Longrightarrow>
   (\<forall>k. stillRunning (g k) \<or> g k = None) \<Longrightarrow> False"
proof (induct rule: poll.raw_induct [rotated 1, consumes 1])
  case (1 poll' g slept operation y)
  from 1(4) have "stillRunning (g (length slept)) \<or> g (length slept) = None" by (rule spec)
  then show False
  proof
    assume "g (length slept) = None"
    with 1(2,3) show False by simp
  next
    assume "stillRunning (g (length slept))"
    then obtain o1 where g0: "g (length slept) = Some (Fulfilled o1)" and o1: "not_done o1"
      by (auto simp: stillRunning_def split: option.splits settled.splits)
    with 1(2,3) have "poll' g (slept @ [10000]) o1 = Some y" by simp
    from 1(1) [OF this o1 1(4)] show False .
  qed
qed

lemma poll_result_done:
  "poll g slept operation = Some (slept', Fulfilled operation') \<Longrightarrow> \<not> not_done operation'"
proof (induct g slept operation "(slept', Fulfilled operation' :: Operation settled)"
    rule: poll.raw_induct [rotated 1, consumes 1])
  case (1 poll' g slept operation)
  then show ?case by (auto split: if_splits option.splits settled.splits)
qed

lemmas provider_defs =
  providerOf_def submitted_def completed_def alwaysFailing_def doneAtThird_def neverDone_def
  serving_def unreachable_def not_done_def stillRunning_def

lemma poll_doneAtThird:
  "poll doneAtThird [] submitted = Some ([10000, 10000, 10000], Fulfilled completed)"
  by (simp add: poll.simps provider_defs)

text \<open>
  Claim C3, as amended. After \<^verbatim>\<open>generateVideos\<close> has returned an operation: if it is
  done already the loop makes no round. Otherwise, if the first \<open>n\<close> replies keep the
  loop running, then: when reply \<open>n\<close> reports an operation that is done, the loop exits
  after exactly \<open>n + 1\<close> sleeps of 10000 ms each and \<^verbatim>\<open>animateLogo\<close> goes on to the
  download from that operation; when reply \<open>n\<close> is a rejection, the loop is left by
  that exception after \<open>n + 1\<close> sleeps and \<^verbatim>\<open>animateLogo\<close> rejects with it; when
  reply \<open>n\<close> never arrives, neither returns. There is no bound on \<open>n\<close>. If every reply
  keeps the loop running, the loop never exits and \<^verbatim>\<open>animateLogo\<close> never settles.
\<close>

theorem polling_loop:
  assumes "generateVideos ai (videoRequest b m p r) = Some (Fulfilled operation)"
  shows "(\<not> not_done operation \<longrightarrow>
            poll (getVideosOperation ai) [] operation = Some ([], Fulfilled operation) \<and>
            animateLogo ai b m p r = download ai operation) \<and>
         (not_done operation \<and> (\<forall>k<n. stillRunning (getVideosOperation ai k)) \<longrightarrow>
            (\<forall>operation'. getVideosOperation ai n = Some (Fulfilled operation') \<and> \<not> not_done operation' \<longrightarrow>
               poll (getVideosOperation ai) [] operation =
                 Some (replicate (Suc n) 10000, Fulfilled operation') \<and>
               animateLogo ai b m p r = download ai operation') \<and>
            (\<forall>e. getVideosOperation ai n = Some (Rejected e) \<longrightarrow>
               poll (getVideosOperation ai) [] operation = Some (replicate (Suc n) 10000, Rejected e) \<and>
               animateLogo ai b m p r = Some (Rejected e)) \<and>
            (getVideosOperation ai n = None \<longrightarrow>
               poll (getVideosOperation ai) [] operation = None \<and> animateLogo ai b m p r = None)) \<and>
         (not_done operation \<and> (\<forall>k. stillRunning (getVideosOperation ai k)) \<longrightarrow>
            poll (getVideosOperation ai) [] operation = None \<and> animateLogo ai b m p r = None)"
proof (intro conjI impI allI)
  assume "\<not> not_done operation"
  then show z: "poll (getVideosOperation ai) [] operation = Some ([], Fulfilled operation)"
    by (rule poll_done)
  show "animateLogo ai b m p r = download ai operation"
    using assms z by (simp add: animateLogo_def)
next
  fix operation'
  assume a: "not_done operation \<and> (\<forall>k<n. stillRunning (getVideosOperation ai k))"
    and d: "getVideosOperation ai n = Some (Fulfilled operation') \<and> \<not> not_done operation'"
  from a poll_first_reply obtain o1 where o1: "not_done o1"
    and e: "poll (getVideosOperation ai) [] operation =
            poll (getVideosOperation ai) (replicate n 10000) o1" by blast
  have "poll (getVideosOperation ai) (replicate n 10000) o1 =
        poll (getVideosOperation ai) (replicate n 10000 @ [10000]) operation'"
    using o1 d by (intro poll_again) simp_all
  also have "\<dots> = Some (replicate n 10000 @ [10000], Fulfilled operation')"
    using d by (intro poll_done) simp
  finally show z: "poll (getVideosOperation ai) [] operation =
      Some (replicate (Suc n) 10000, Fulfilled operation')"
    using e by (simp add: replicate_append_same)
  show "animateLogo ai b m p r = download ai operation'"
    using assms z by (simp add: animateLogo_def)
next
  fix e
  assume a: "not_done operation \<and> (\<forall>k<n. stillRunning (getVideosOperation ai k))"
    and d: "getVideosOperation ai n = Some (Rejected e)"
  from a poll_first_reply obtain o1 where o1: "not_done o1"
    and e: "poll (getVideosOperation ai) [] operation =
            poll (getVideosOperation ai) (replicate n 10000) o1" by blast
  have "poll (getVideosOperation ai) (replicate n 10000) o1 =
        Some (replicate n 10000 @ [10000], Rejected e)"
    using o1 d by (intro poll_throws) simp_all
  then show z: "poll (getVideosOperation ai) [] operation = Some (replicate (Suc n) 10000, Rejected e)"
    using e by (simp add: replicate_append_same)
  show "animateLogo ai b m p r = Some (Rejected e)"
    using assms z by (simp add: animateLogo_def)
next
  assume a: "not_done operation \<and> (\<forall>k<n. stillRunning (getVideosOperation ai k))"
    and d: "getVideosOperation ai n = None"
  from a poll_first_reply obtain o1 where o1: "not_done o1"
    and e: "poll (getVideosOperation ai) [] operation =
            poll (getVideosOperation ai) (replicate n 10000) o1" by blast
  have "poll (getVideosOperation ai) (replicate n 10000) o1 = None"
    using o1 d by (intro poll_hangs) simp_all
  then show z: "poll (getVideosOperation ai) [] operation = None" using e by simp
  show "animateLogo ai b m p r = None"
    using assms z by (simp add: animateLogo_def)
next
  assume a: "not_done operation \<and> (\<forall>k. stillRunning (getVideosOperation ai k))"
  show z: "poll (getVideosOperation ai) [] operation = None"
  proof (cases "poll (getVideosOperation ai) [] operation")
    case None
    then show ?thesis .
  next
    case (Some y)
    from poll_never_exits [OF Some] a show ?thesis by blast
  qed
  show "animateLogo ai b m p r = None"
    using assms z by (simp add: animateLogo_def)
qed

text \<open>
  A provider that reports completion at the third status fetch, and one that never
  does.
\<close>

theorem polling_loop_witness:
  "generateVideos (providerOf submitted doneAtThird unreachable)
     (videoRequest ''b3ds'' ''image/png'' ''pages turn slowly'' Ratio_16_9) = Some (Fulfilled submitted) \<and>
   not_done submitted \<and> stillRunning (doneAtThird 0) \<and> stillRunning (doneAtThird 1) \<and>
   doneAtThird 2 = Some (Fulfilled completed) \<and> \<not> not_done completed \<and>
   poll doneAtThird [] submitted = Some ([10000, 10000, 10000], Fulfilled completed) \<and>
   poll neverDone [] submitted = None \<and>
   animateLogo (providerOf submitted neverDone unreachable)
     ''b3ds'' ''image/png'' ''pages turn slowly'' Ratio_16_9 = None"
proof -
  have g: "generateVideos (providerOf submitted doneAtThird unreachable)
     (videoRequest ''b3ds'' ''image/png'' ''pages turn slowly'' Ratio_16_9) = Some (Fulfilled submitted)"
    "generateVideos (providerOf submitted neverDone unreachable)
     (videoRequest ''b3ds'' ''image/png'' ''pages turn slowly'' Ratio_16_9) = Some (Fulfilled submitted)"
    by (simp_all add: providerOf_def)
  have r: "getVideosOperation (providerOf submitted doneAtThird unreachable) = doneAtThird"
    "getVideosOperation (providerOf submitted neverDone unreachable) = neverDone"
    by (simp_all add: providerOf_def)
  have h: "not_done submitted" "\<forall>k<2. stillRunning (doneAtThird k)"
    "doneAtThird 2 = Some (Fulfilled completed)" "\<not> not_done completed"
    "\<forall>k. stillRunning (neverDone k)"
    by (simp_all add: provider_defs)
  from polling_loop [OF g(1), of 2] h r
  have "poll doneAtThird [] submitted = Some (replicate (Suc 2) 10000, Fulfilled completed)"
    by simp
  then have a: "poll doneAtThird [] submitted = Some ([10000, 10000, 10000], Fulfilled completed)"
    by (simp add: numeral_2_eq_2)
  from polling_loop [OF g(2), of 0] h r
  have b: "poll neverDone [] submitted = None"
    "animateLogo (providerOf submitted neverDone unreachable)
       ''b3ds'' ''image/png'' ''pages turn slowly'' Ratio_16_9 = None"
    by simp_all
  have h': "stillRunning (doneAtThird 0)" "stillRunning (doneAtThird 1)"
    by (simp_all add: provider_defs)
  from g h(1,3,4) h' a b show ?thesis by blast
qed

text \<open>
  Claim C3 as stated fails: with a provider whose status fetch throws, no reply ever
  reports the operation done, yet the loop exits at the first fetch, after one sleep,
  and \<^verbatim>\<open>animateLogo\<close> rejects with the provider's error.
\<close>

theorem polling_loop_left_by_failure:
  "alwaysFailing 0 = Some (Rejected (JsError (Some ''429: quota exceeded''))) \<and>
   poll alwaysFailing [] submitted =
     Some ([10000], Rejected (JsError (Some ''429: quota exceeded''))) \<and>
   animateLogo (providerOf submitted alwaysFailing unreachable)
     ''b3ds'' ''image/png'' ''pages turn slowly'' Ratio_16_9 =
     Some (Rejected (JsError (Some ''429: quota exceeded'')))"
proof -
  have a: "alwaysFailing 0 = Some (Rejected (JsError (Some ''429: quota exceeded'')))"
    by (simp add: alwaysFailing_def)
  have n: "not_done submitted" by (simp add: provider_defs)
  have p: "poll alwaysFailing [] submitted =
     Some ([10000], Rejected (JsError (Some ''429: quota exceeded'')))"
    using poll_throws [of submitted alwaysFailing "[]", OF n] a by simp
  have "animateLogo (providerOf submitted alwaysFailing unreachable)
     ''b3ds'' ''image/png'' ''pages turn slowly'' Ratio_16_9 =
     Some (Rejected (JsError (Some ''429: quota exceeded'')))"
    using p by (simp add: animateLogo_def providerOf_def)
  with a p show ?thesis by blast
qed

section \<open>The download\<close>

text \<open>
  Claim C8, as amended. When the loop has ended with an operation, that operation is
  done and \<^verbatim>\<open>animateLogo\<close> is the download from it: it rejects with ``Failed to get
  video download link.'' when the first generated video has no URI or an empty one;
  with a URI, it rejects with the error of \<^verbatim>\<open>fetch\<close> when the fetch rejects, and with
  the error of \<^verbatim>\<open>blob()\<close> when reading the body rejects; and whenever the fetch
  resolves and the body is read, whatever the response's \<^verbatim>\<open>ok\<close> flag and status, it
  fulfils with the object URL of the body.
\<close>

theorem download_outcomes:
  assumes "generateVideos ai (videoRequest b m p r) = Some (Fulfilled operation)"
    and "poll (getVideosOperation ai) [] operation = Some (slept, Fulfilled operation')"
  shows "\<not> not_done operation' \<and> animateLogo ai b m p r = download ai operation' \<and>
         (downloadLink operation' = None \<or> downloadLink operation' = Some [] \<longrightarrow>
            download ai operation' = Some (Rejected NoVideoReturned)) \<and>
         (\<forall>link. downloadLink operation' = Some link \<and> link \<noteq> [] \<longrightarrow>
            (\<forall>e. fetch ai (link @ ''&key='' @ interpolate (API_KEY ai)) = Some (Rejected e) \<longrightarrow>
               download ai operation' = Some (Rejected e)) \<and>
            (\<forall>okFlag code e.
               fetch ai (link @ ''&key='' @ interpolate (API_KEY ai)) =
                 Some (Fulfilled (Response okFlag code (Some (Rejected e)))) \<longrightarrow>
               download ai operation' = Some (Rejected e)) \<and>
            (\<forall>okFlag code bytes.
               fetch ai (link @ ''&key='' @ interpolate (API_KEY ai)) =
                 Some (Fulfilled (Response okFlag code (Some (Fulfilled bytes)))) \<longrightarrow>
               download ai operation' = Some (Fulfilled (createObjectURL ai bytes))))"
proof -
  have a: "\<not> not_done operation'" using assms(2) by (rule poll_result_done)
  have b: "animateLogo ai b m p r = download ai operation'"
    using assms by (simp add: animateLogo_def)
  have c: "downloadLink operation' = None \<or> downloadLink operation' = Some [] \<longrightarrow>
            download ai operation' = Some (Rejected NoVideoReturned)"
    by (auto simp: download_def)
  have d: "\<forall>link. downloadLink operation' = Some link \<and> link \<noteq> [] \<longrightarrow>
            (\<forall>e. fetch ai (link @ ''&key='' @ interpolate (API_KEY ai)) = Some (Rejected e) \<longrightarrow>
               download ai operation' = Some (Rejected e)) \<and>
            (\<forall>okFlag code e.
               fetch ai (link @ ''&key='' @ interpolate (API_KEY ai)) =
                 Some (Fulfilled (Response okFlag code (Some (Rejected e)))) \<longrightarrow>
               download ai operation' = Some (Rejected e)) \<and>
            (\<forall>okFlag code bytes.
               fetch ai (link @ ''&key='' @ interpolate (API_KEY ai)) =
                 Some (Fulfilled (Response okFlag code (Some (Fulfilled bytes)))) \<longrightarrow>
               download ai operation' = Some (Fulfilled (createObjectURL ai bytes)))"
    by (simp add: download_def)
  from a b c d show ?thesis by (intro conjI)
qed

text \<open>
Completion at the third status fetch and a download answered with status 200.
\<close>

theorem download_outcomes_witness:
  "generateVideos (providerOf submitted doneAtThird (serving (Response True 200 (Some (Fulfilled ''mp4-bytes'')))))
     (videoRequest ''b3ds'' ''image/png'' ''pages turn slowly'' Ratio_16_9) = Some (Fulfilled submitted) \<and>
   poll doneAtThird [] submitted = Some ([10000, 10000, 10000], Fulfilled completed) \<and>
   downloadLink completed = Some ''https://files/v1?alt=media'' \<and>
   animateLogo (providerOf submitted doneAtThird (serving (Response True 200 (Some (Fulfilled ''mp4-bytes'')))))
     ''b3ds'' ''image/png'' ''pages turn slowly'' Ratio_16_9 = Some (Fulfilled ''blob:mp4-bytes'')"
proof -
  let ?ai = "providerOf submitted doneAtThird (serving (Response True 200 (Some (Fulfilled ''mp4-bytes''))))"
  have g: "generateVideos ?ai
     (videoRequest ''b3ds'' ''image/png'' ''pages turn slowly'' Ratio_16_9) = Some (Fulfilled submitted)"
    by (simp add: providerOf_def)
  have n: "not_done submitted" "\<not> not_done completed" by (simp_all add: provider_defs)
  note p = poll_doneAtThird
  from p have p': "poll (getVideosOperation ?ai) [] submitted = Some ([10000, 10000, 10000], Fulfilled completed)"
    by (simp add: providerOf_def)
  have l: "downloadLink completed = Some ''https://files/v1?alt=media''"
    by (simp add: downloadLink_def completed_def)
  have f: "fetch ?ai (''https://files/v1?alt=media'' @ ''&key='' @ interpolate (API_KEY ?ai)) =
      Some (Fulfilled (Response True 200 (Some (Fulfilled ''mp4-bytes''))))"
    by (simp add: providerOf_def serving_def)
  from download_outcomes [OF g p'] l
  have "animateLogo ?ai ''b3ds'' ''image/png'' ''pages turn slowly'' Ratio_16_9 =
          Some (Fulfilled ''blob:mp4-bytes'')"
    by (auto simp: providerOf_def serving_def interpolate_def)
  with g p l show ?thesis by blast
qed

text \<open>
  Claim C8 as stated fails: when the download is answered with status 404,
  fetching the content has failed, but \<^verbatim>\<open>animateLogo\<close> does not fail; it fulfils with
  an object URL of the error body.
\<close>

theorem http_error_body_returned:
  "fetch (providerOf completed neverDone (serving (Response False 404 (Some (Fulfilled ''Not Found'')))))
     (''https://files/v1?alt=media'' @ ''&key='' @ ''k'') =
     Some (Fulfilled (Response False 404 (Some (Fulfilled ''Not Found'')))) \<and>
   animateLogo (providerOf completed neverDone (serving (Response False 404 (Some (Fulfilled ''Not Found'')))))
     ''b3ds'' ''image/png'' ''pages turn slowly'' Ratio_16_9 = Some (Fulfilled ''blob:Not Found'')"
proof -
  have "poll neverDone [] completed = Some ([], Fulfilled completed)"
    by (intro poll_done) (simp add: provider_defs)
  then show ?thesis
    by (simp add: animateLogo_def download_def downloadLink_def interpolate_def
          providerOf_def serving_def completed_def)
qed

end
